theory Spec2Isabelle
  imports Main "HOL-Library.Word"
begin

unbundle bit_operations_syntax

section \<open>Values shared by both packages\<close>

text \<open>
  A Go \<open>[]byte\<close> is a list of 8-bit words. A Go \<open>string\<close> that holds text (a header
  value, a token, a path) is a \<open>string\<close>; a Go \<open>string\<close> made from bytes by
  \<open>string(id)\<close> is kept as the list of its bytes, so the empty Go string is \<open>[]\<close> in
  both readings.
\<close>

type_synonym byte = "8 word"
type_synonym bytes = "byte list"

text \<open>
  Go errors. \<open>LibError\<close> is an error value handed over by a library or by a collaborator
  (its message is all the model keeps); the other constructors are the errors the
  repository builds itself, one per call site:
  \<^item> \<open>Annotate err msg\<close> is \<open>errors.Annotate(err, msg)\<close>,
  \<^item> \<open>Annotatef err fmt arg\<close> is \<open>errors.Annotatef(err, fmt, arg)\<close>,
  \<^item> \<open>NoHTTPMethods\<close> is \<open>errors.New("route does not define any HTTPMethods")\<close>,
  \<^item> \<open>MultipleMethods methods\<close> is
    \<open>errors.Errorf("route defines multiple non-HEAD/OPTIONS methods: %s", methods)\<close>,
  \<^item> \<open>ValueNotPointer t\<close> is \<open>errors.Errorf("value must be a pointer or nil not %s", t)\<close>,
  \<^item> \<open>UnexpectedStatus code\<close> is \<open>errors.Errorf("unexpected status code %d", code)\<close>,
  \<^item> \<open>UserErr u\<close> is an application error decoded by \<open>usererrors.UnmarshalJSON\<close>.
\<close>

text \<open>
  Modelled from the spec: the package \<open>usererrors\<close> is not among the sources. The spec
  describes its values as application errors that carry a machine-readable kind and a
  message.
\<close>

record UserError =
  ue_kind :: string
  ue_message :: string

datatype error =
    LibError string
  | Annotate error string
  | Annotatef error string string
  | NoHTTPMethods
  | MultipleMethods "string list"
  | ValueNotPointer string
  | UnexpectedStatus int
  | UserErr UserError

definition HasPrefix :: "string \<Rightarrow> string \<Rightarrow> bool" where
  "HasPrefix s prefix = (length prefix \<le> length s \<and> take (length prefix) s = prefix)"

definition TrimPrefix :: "string \<Rightarrow> string \<Rightarrow> string" where
  "TrimPrefix s prefix = (if HasPrefix s prefix then drop (length prefix) s else s)"

text \<open>
  \<open>http.Header\<close> is a map from (canonical) header names to the list of their values.
  \<open>Get\<close> returns the first value of a name, or the empty string.
\<close>

type_synonym Header = "string \<rightharpoonup> string list"

definition Header_Get :: "Header \<Rightarrow> string \<Rightarrow> string" where
  "Header_Get h k = (case h k of None \<Rightarrow> [] | Some [] \<Rightarrow> [] | Some (v # vs) \<Rightarrow> v)"

definition Header_Add :: "Header \<Rightarrow> string \<Rightarrow> string \<Rightarrow> Header" where
  "Header_Add h k v = h(k \<mapsto> (case h k of None \<Rightarrow> [] | Some vs \<Rightarrow> vs) @ [v])"

definition Header_Set :: "Header \<Rightarrow> string \<Rightarrow> string \<Rightarrow> Header" where
  "Header_Set h k v = h(k \<mapsto> [v])"

text \<open>
  \<open>url.URL\<close>, with the fields the code reads or writes (\<open>RawQuery\<close>) and those that
  tell two URLs apart.
\<close>

record URL =
  Scheme :: string
  Host :: string
  Path :: string
  RawQuery :: string
  Fragment :: string

text \<open>
  \<open>http.Request\<close>: the fields set by \<open>http.NewRequest\<close> and by the code. A nil body is
  \<open>None\<close>.
\<close>

record Request =
  req_Method :: string
  req_URL :: URL
  req_Header :: Header
  req_Body :: "string option"

section \<open>Package auth\<close>

subsection \<open>The library functions of package auth\<close>

text \<open>
  The cryptographic functions come from Go's standard library and are parameters of the
  model: \<open>HMAC_SHA256 key msg\<close> is the 256-bit HMAC-SHA256 of \<open>msg\<close> under \<open>key\<close>,
  \<open>EncodeToString\<close> and \<open>DecodeString\<close> are those of \<open>base64.URLEncoding\<close>. Every
  theorem below holds for all functions of these types.
\<close>

record crypto =
  HMAC_SHA256 :: "bytes \<Rightarrow> bytes \<Rightarrow> 256 word"
  EncodeToString :: "bytes \<Rightarrow> string"
  DecodeString :: "string \<Rightarrow> error + bytes"

text \<open>The 32 bytes of a SHA-256 digest, most significant byte first.\<close>

definition digest_bytes :: "256 word \<Rightarrow> bytes" where
  "digest_bytes d = map (\<lambda>i. ucast (drop_bit (8 * (31 - i)) d)) [0..<32]"

text \<open>
  The value returned by \<open>hmac.New(sha256.New, key)\<close>: the key and the bytes written to
  the hash so far. The code never calls \<open>Write\<close>, so \<open>mac_written\<close> stays empty.
  \<open>Sum(b)\<close> appends the MAC of the written bytes to \<open>b\<close> and returns the resulting
  slice; it does not hash \<open>b\<close>. \<open>Size\<close> is \<open>sha256.Size\<close>. \<open>hmac.Equal\<close> is
  \<open>subtle.ConstantTimeCompare\<close>, which is false for slices of different lengths.
\<close>

record hmac =
  mac_key :: bytes
  mac_written :: bytes

definition hmac_New :: "bytes \<Rightarrow> hmac" where
  "hmac_New k = \<lparr>mac_key = k, mac_written = []\<rparr>"

definition hmac_Size :: "hmac \<Rightarrow> nat" where
  "hmac_Size h = 32"

definition hmac_Sum :: "crypto \<Rightarrow> hmac \<Rightarrow> bytes \<Rightarrow> bytes" where
  "hmac_Sum L h b = b @ digest_bytes (HMAC_SHA256 L (mac_key h) (mac_written h))"

definition hmac_Equal :: "bytes \<Rightarrow> bytes \<Rightarrow> bool" where
  "hmac_Equal mac1 mac2 = (length mac1 = length mac2 \<and> mac1 = mac2)"

text \<open>
  \<open>make([]byte, len, cap)\<close>: \<open>len\<close> zero bytes; the capacity is room for later appends
  and holds no readable byte.
\<close>

definition make_bytes :: "nat \<Rightarrow> nat \<Rightarrow> bytes" where
  "make_bytes len cap = replicate len 0"

text \<open>
  \<open>rand.Read(b)\<close> fills the \<open>len(b)\<close> bytes of \<open>b\<close> from the system's random source
  or fails. The source is the list of the bytes it will deliver next; the result is the
  filled slice and the rest of the source.
\<close>

definition rand_Read :: "bytes \<Rightarrow> bytes \<Rightarrow> error + (bytes \<times> bytes)" where
  "rand_Read src b =
     (if length src < length b then Inl (LibError ''unexpected EOF'')
      else Inr (take (length b) src, drop (length b) src))"

subsection \<open>Controller\<close>

record Controller =
  secret :: bytes

definition idLen :: nat where
  "idLen = 16"

definition New :: "bytes \<Rightarrow> Controller" where
  "New s = \<lparr>secret = s\<rparr>"

text \<open>
  \<open>Controller.CreateUser\<close>. A panic is \<open>Inl\<close> of its error. \<open>json_Encode res\<close> is
  \<open>json.NewEncoder(w).Encode(res)\<close> for the struct whose \<open>ID\<close> is \<open>res\<close>: \<open>None\<close> when
  the document was written to the response, the error otherwise. The result is the
  \<open>ID\<close> sent to the caller and the random source left over.
\<close>

definition CreateUser ::
  "crypto \<Rightarrow> (string \<Rightarrow> error option) \<Rightarrow> Controller \<Rightarrow> bytes \<Rightarrow> error + (string \<times> bytes)" where
  "CreateUser L json_Encode c src =
     (let user = make_bytes 0 idLen in
      case rand_Read src user of
        Inl err \<Rightarrow> Inl err
      | Inr (user, src') \<Rightarrow>
          (let mac = hmac_Sum L (hmac_New (secret c)) user;
               user = user @ mac;
               res = EncodeToString L user
           in case json_Encode res of
                Some err \<Rightarrow> Inl err
              | None \<Rightarrow> Inr (res, src')))"

text \<open>
  \<open>Controller.getUser\<close>. \<open>id\<close> and \<open>msgMac\<close> are slices of the array of \<open>raw\<close>.
  When \<open>mac.Sum(id)\<close> runs, \<open>id\<close> has length \<open>idLen\<close> and at least \<open>mac.Size()\<close> bytes
  of capacity behind it, so the append inside \<open>Sum\<close> writes into the array of \<open>raw\<close>:
  \<open>raw'\<close> is that array after the call, and \<open>msgMac\<close> is read from it by
  \<open>hmac.Equal\<close>.
\<close>

definition getUser :: "crypto \<Rightarrow> Controller \<Rightarrow> string \<Rightarrow> bytes" where
  "getUser L c auth =
     (let mac = hmac_New (secret c) in
      case DecodeString L auth of
        Inl err \<Rightarrow> []
      | Inr raw \<Rightarrow>
          if length raw \<noteq> idLen + hmac_Size mac then []
          else
            (let id = take idLen raw;
                 summed = hmac_Sum L mac id;
                 raw' = summed @ drop (length summed) raw;
                 msgMac = drop idLen raw'
             in if hmac_Equal msgMac summed then id else []))"

text \<open>
  What a handler does to its collaborators, in order: \<open>http_Error msg code\<close> is the call
  \<open>http.Error(w, msg, code)\<close>, \<open>ServeHTTPC ctx\<close> is the call
  \<open>inner.ServeHTTPC(ctx, w, r)\<close> of the wrapped handler, \<open>WriteHeader code\<close> is
  \<open>w.WriteHeader(code)\<close> and \<open>http_NotFound\<close> is \<open>http.NotFound(w, r)\<close>. A context is
  the map of its values; \<open>WithValue\<close> adds one.
\<close>

type_synonym Context = "string \<rightharpoonup> bytes"

datatype effect =
    http_Error string nat
  | ServeHTTPC Context
  | WriteHeader nat
  | http_NotFound

definition WithValue :: "Context \<Rightarrow> string \<Rightarrow> bytes \<Rightarrow> Context" where
  "WithValue ctx k v = ctx(k \<mapsto> v)"

definition StatusUnauthorized :: nat where
  "StatusUnauthorized = 401"

definition WrapC :: "crypto \<Rightarrow> Controller \<Rightarrow> Context \<Rightarrow> Request \<Rightarrow> effect list" where
  "WrapC L c ctx r =
     (let auth = Header_Get (req_Header r) ''Authorization'' in
      if \<not> HasPrefix auth ''Bearer '' then
        [http_Error ''You must provide a Bearer token in an Authorization header''
           StatusUnauthorized]
      else
        (let auth = TrimPrefix auth ''Bearer '' in
         if getUser L c auth \<noteq> [] then [ServeHTTPC (WithValue ctx ''userID'' [])]
         else [http_Error ''Invalid authentication string'' StatusUnauthorized]))"

text \<open>
  \<open>Controller.GetUser\<close>. The argument \<open>urlVar\<close> is what \<open>mux.GetURLVar(ctx, "id")\<close>
  returns: the variable, or \<open>None\<close> when there is none, which makes the handler panic.
\<close>

definition GetUser :: "crypto \<Rightarrow> Controller \<Rightarrow> string option \<Rightarrow> error + effect list" where
  "GetUser L c urlVar =
     (case urlVar of
        None \<Rightarrow> Inl (LibError ''GetUser called without an `id` URL Var'')
      | Some auth \<Rightarrow>
          if getUser L c auth \<noteq> [] then Inr [WriteHeader 204] else Inr [http_NotFound])"

text \<open>
  The spec's validity of a token, in its words: decoding yields exactly
  \<open>IdentityLength + MACLength\<close> bytes and the trailing MAC bytes equal the HMAC-SHA256 of
  the leading identity bytes under the secret.
\<close>

definition spec_token_valid :: "crypto \<Rightarrow> bytes \<Rightarrow> string \<Rightarrow> bool" where
  "spec_token_valid L key t =
     (case DecodeString L t of
        Inl err \<Rightarrow> False
      | Inr raw \<Rightarrow>
          length raw = 16 + 32 \<and> drop 16 raw = digest_bytes (HMAC_SHA256 L key (take 16 raw)))"

section \<open>Package client\<close>

subsection \<open>The library functions of package client\<close>

text \<open>
  Functions of Go's standard library and of the package \<open>usererrors\<close> that the client
  calls; they are parameters of the model:
  \<^item> \<open>url_Parse\<close>, \<open>ResolveReference base ref\<close> and \<open>URL_String\<close> are \<open>url.Parse\<close>,
    \<open>base.ResolveReference(ref)\<close> and \<open>u.String()\<close>,
  \<^item> \<open>Values_Encode\<close> is \<open>form.Encode()\<close>,
  \<^item> \<open>UnmarshalJSON\<close> is \<open>usererrors.UnmarshalJSON\<close>,
  \<^item> \<open>json_Decode body v\<close> is \<open>json.NewDecoder(resp.Body).Decode(v)\<close>: the value
    stored through the pointer \<open>v\<close>, or the error.
\<close>

type_synonym Values = "(string \<times> string list) list"

text \<open>
  \<open>reflect.Kind\<close>, and what \<open>Do\<close> reads of a non-nil \<open>interface{}\<close> value: its kind and
  the name of its type (\<open>reflect.TypeOf(v).String()\<close>). A nil interface is \<open>None\<close>.
\<close>

datatype Kind =
    Kind_Invalid | Kind_Bool | Kind_Int | Kind_Int8 | Kind_Int16 | Kind_Int32 | Kind_Int64
  | Kind_Uint | Kind_Uint8 | Kind_Uint16 | Kind_Uint32 | Kind_Uint64 | Kind_Uintptr
  | Kind_Float32 | Kind_Float64 | Kind_Complex64 | Kind_Complex128 | Kind_Array
  | Kind_Chan | Kind_Func | Kind_Interface | Kind_Map | Kind_Ptr | Kind_Slice
  | Kind_String | Kind_Struct | Kind_UnsafePointer

record iface =
  v_Kind :: Kind
  v_Type :: string

definition reflect_Kind :: "iface option \<Rightarrow> Kind" where
  "reflect_Kind v = (case v of None \<Rightarrow> Kind_Invalid | Some x \<Rightarrow> v_Kind x)"

definition reflect_TypeString :: "iface option \<Rightarrow> string" where
  "reflect_TypeString v = (case v of None \<Rightarrow> ''<nil>'' | Some x \<Rightarrow> v_Type x)"

text \<open>
  \<open>http.Response\<close>: the status code and the body. The body is a stream; the model keeps
  what reading it to the end gives, the bytes or the error of the read.
\<close>

record Response =
  StatusCode :: int
  resp_Body :: "error + string"

record 'v netlib =
  url_Parse :: "string \<Rightarrow> error + URL"
  ResolveReference :: "URL \<Rightarrow> URL \<Rightarrow> URL"
  URL_String :: "URL \<Rightarrow> string"
  Values_Encode :: "Values \<Rightarrow> string"
  UnmarshalJSON :: "string \<Rightarrow> error + UserError"
  json_Decode :: "error + string \<Rightarrow> iface \<Rightarrow> error + 'v"

text \<open>
  \<open>http.NewRequest(method, urlStr, body)\<close>: an empty method means GET, a method that is
  not a token is refused, the URL is parsed again, and the new request has no header.
\<close>

definition isTokenChar :: "char \<Rightarrow> bool" where
  "isTokenChar ch =
     (let n = (of_char ch :: nat) in
      (48 \<le> n \<and> n \<le> 57) \<or> (65 \<le> n \<and> n \<le> 90) \<or> (97 \<le> n \<and> n \<le> 122)
      \<or> n \<in> set [33, 35, 36, 37, 38, 39, 42, 43, 45, 46, 94, 95, 96, 124, 126])"

definition validMethod :: "string \<Rightarrow> bool" where
  "validMethod method = (0 < length method \<and> list_all isTokenChar method)"

definition http_NewRequest ::
  "'v netlib \<Rightarrow> string \<Rightarrow> string \<Rightarrow> string option \<Rightarrow> error + Request" where
  "http_NewRequest L method urlStr body =
     (let method = (if method = [] then ''GET'' else method) in
      if \<not> validMethod method then Inl (LibError ''net/http: invalid method'')
      else
        case url_Parse L urlStr of
          Inl err \<Rightarrow> Inl err
        | Inr u \<Rightarrow>
            Inr \<lparr>req_Method = method, req_URL = u, req_Header = Map.empty, req_Body = body\<rparr>)"

subsection \<open>Route and Client\<close>

text \<open>
  A \<open>Route\<close> is an interface of two methods. \<open>HTTPMethods()\<close> returns a Go map used as a
  set; the model keeps its keys as the list in which \<open>range\<close> visits them. Go does not
  fix that order, so a statement about a set of methods is made for every duplicate-free
  list of its members. A \<open>Vars\<close> value is the map its method \<open>Vars()\<close> returns; a nil
  \<open>Vars\<close> is \<open>None\<close>.
\<close>

record Route =
  HTTPMethods :: "string list"
  URLPath :: "(string \<rightharpoonup> string) \<Rightarrow> error + string"

record Client =
  c_baseURL :: URL
  c_do :: "Request \<Rightarrow> error + Response"
  c_auth :: string

text \<open>
  Lines 114 to 121 of \<open>NewRequest\<close>: the loop over \<open>methods\<close>, with the value of
  \<open>method\<close> so far. \<open>resolveMethod\<close> is lines 103 to 122.
\<close>

fun pickMethod :: "string list \<Rightarrow> string \<Rightarrow> string list \<Rightarrow> error + string" where
  "pickMethod methods method [] = Inr method"
| "pickMethod methods method (m # ms) =
     (if m \<noteq> ''HEAD'' \<and> m \<noteq> ''OPTIONS'' then
        (if method \<noteq> [] then Inl (MultipleMethods methods)
         else pickMethod methods m ms)
      else pickMethod methods method ms)"

definition resolveMethod :: "string list \<Rightarrow> error + string" where
  "resolveMethod methods =
     (if length methods = 0 then Inl NoHTTPMethods
      else if length methods = 1 then Inr (hd methods)
      else pickMethod methods [] methods)"

definition NewRequest ::
  "'v netlib \<Rightarrow> Client \<Rightarrow> Route \<Rightarrow> (string \<rightharpoonup> string) option \<Rightarrow> Values option
     \<Rightarrow> error + Request" where
  "NewRequest L c rt rtVars form =
     (let vars = (case rtVars of Some v \<Rightarrow> v | None \<Rightarrow> Map.empty) in
      case URLPath rt vars of
        Inl err \<Rightarrow> Inl (Annotate err ''unable to generate request path'')
      | Inr path \<Rightarrow>
          (case url_Parse L path of
             Inl err \<Rightarrow> Inl (Annotatef err ''unparseable request path %q'' path)
           | Inr rel \<Rightarrow>
               (case resolveMethod (HTTPMethods rt) of
                  Inl err \<Rightarrow> Inl err
                | Inr method \<Rightarrow>
                    (let abs0 = ResolveReference L (c_baseURL c) rel;
                         (abs1, body) =
                           (case form of
                              None \<Rightarrow> (abs0, None)
                            | Some f \<Rightarrow>
                                (let encoded = Values_Encode L f in
                                 if method = ''GET'' \<or> method = ''HEAD'' then
                                   (abs0\<lparr>RawQuery := encoded\<rparr>, None)
                                 else (abs0, Some encoded)))
                     in case http_NewRequest L method (URL_String L abs1) body of
                          Inl err \<Rightarrow> Inl err
                        | Inr req \<Rightarrow>
                            (let req1 = (if c_auth c \<noteq> [] then
                                           req\<lparr>req_Header := Header_Add (req_Header req)
                                             ''Authorization'' (''Bearer '' @ c_auth c)\<rparr>
                                         else req);
                                 req2 = (if body \<noteq> None then
                                           req1\<lparr>req_Header := Header_Set (req_Header req1)
                                             ''Content-Type''
                                             ''application/x-www-form-urlencoded''\<rparr>
                                         else req1)
                             in Inr req2)))))"

text \<open>
  \<open>Client.Do\<close>. The result holds the two values returned, the value decoded into \<open>v\<close>
  (if any) and \<open>sent\<close>, the requests handed to the transport \<open>c.do\<close>, in order.
\<close>

record 'v do_result =
  ret_resp :: "Response option"
  ret_err :: "error option"
  stored :: "'v option"
  sent :: "Request list"

definition Do :: "'v netlib \<Rightarrow> Client \<Rightarrow> Request \<Rightarrow> iface option \<Rightarrow> 'v do_result" where
  "Do L c req v =
     (if \<not> (v = None \<or> reflect_Kind v = Kind_Ptr) then
        \<lparr>ret_resp = None, ret_err = Some (ValueNotPointer (reflect_TypeString v)),
         stored = None, sent = []\<rparr>
      else
        case c_do c req of
          Inl err \<Rightarrow> \<lparr>ret_resp = None, ret_err = Some err, stored = None, sent = [req]\<rparr>
        | Inr resp \<Rightarrow>
            if StatusCode resp > 399 then
              (case resp_Body resp of
                 Inl err \<Rightarrow>
                   \<lparr>ret_resp = Some resp,
                    ret_err = Some (Annotate err ''unable to read response body''),
                    stored = None, sent = [req]\<rparr>
               | Inr body \<Rightarrow>
                   (case UnmarshalJSON L body of
                      Inl err \<Rightarrow>
                        \<lparr>ret_resp = Some resp,
                         ret_err = Some (Annotate err ''unable to parse error body''),
                         stored = None, sent = [req]\<rparr>
                    | Inr uerr \<Rightarrow>
                        \<lparr>ret_resp = Some resp, ret_err = Some (UserErr uerr),
                         stored = None, sent = [req]\<rparr>))
            else if StatusCode resp > 299 \<or> StatusCode resp < 199 then
              \<lparr>ret_resp = Some resp, ret_err = Some (UnexpectedStatus (StatusCode resp)),
               stored = None, sent = [req]\<rparr>
            else
              (case v of
                 Some x \<Rightarrow>
                   (case json_Decode L (resp_Body resp) x of
                      Inl err \<Rightarrow>
                        \<lparr>ret_resp = Some resp,
                         ret_err = Some (Annotate err ''unable to parse response body''),
                         stored = None, sent = [req]\<rparr>
                    | Inr y \<Rightarrow>
                        \<lparr>ret_resp = Some resp, ret_err = None, stored = Some y,
                         sent = [req]\<rparr>)
               | None \<Rightarrow>
                   \<lparr>ret_resp = Some resp, ret_err = None, stored = None, sent = [req]\<rparr>))"

text \<open>
  \<open>NewForTest\<close>: a client whose transport runs a handler and returns what the handler
  recorded. The handler is the function from the request to the recorded response; the
  base URL is the empty \<open>url.URL{}\<close> and no authorization is set.
\<close>

definition NewForTest :: "(Request \<Rightarrow> Response) \<Rightarrow> Client" where
  "NewForTest srv =
     \<lparr>c_baseURL = \<lparr>Scheme = [], Host = [], Path = [], RawQuery = [], Fragment = []\<rparr>,
      c_do = (\<lambda>req. Inr (srv req)),
      c_auth = []\<rparr>"

definition SetAuthorization :: "Client \<Rightarrow> string \<Rightarrow> Client" where
  "SetAuthorization c a = c\<lparr>c_auth := a\<rparr>"

section \<open>Concrete inputs\<close>

text \<open>
  The closed statements further down run the model on concrete routes, requests and
  responses. They need the library parameters as functions that compute. For package
  client these are the functions of \<open>net/url\<close> on references that consist of a path and
  an optional query, without characters that would be escaped, resolved against the
  empty base URL of \<open>NewForTest\<close>: \<open>url.Parse\<close> splits at the first question mark,
  \<open>String\<close> joins path and query again, resolving against the empty URL returns the
  reference, and \<open>Encode\<close> writes \<open>key=value\<close> pairs joined by an ampersand.
\<close>

definition ref_Parse :: "string \<Rightarrow> error + URL" where
  "ref_Parse s =
     Inr \<lparr>Scheme = [], Host = [],
          Path = takeWhile (\<lambda>ch. ch \<noteq> CHR ''?'') s,
          RawQuery = drop 1 (dropWhile (\<lambda>ch. ch \<noteq> CHR ''?'') s),
          Fragment = []\<rparr>"

definition ref_String :: "URL \<Rightarrow> string" where
  "ref_String u = Path u @ (if RawQuery u = [] then [] else CHR ''?'' # RawQuery u)"

fun join_amp :: "string list \<Rightarrow> string" where
  "join_amp [] = []"
| "join_amp [x] = x"
| "join_amp (x # y # ys) = x @ CHR ''&'' # join_amp (y # ys)"

definition form_Encode :: "Values \<Rightarrow> string" where
  "form_Encode f = join_amp (concat (map (\<lambda>(k, vs). map (\<lambda>v. k @ CHR ''='' # v) vs) f))"

text \<open>
  An error document and a decoder that knows it: the body \<open>{"code":"not_found"}\<close>
  decodes to the application error of kind \<open>not_found\<close>, every other body is refused.
\<close>

definition not_found_body :: string where
  "not_found_body =
     CHR ''{'' # CHR 0x22 # ''code'' @ CHR 0x22 # CHR '':'' # CHR 0x22 # ''not_found''
       @ [CHR 0x22, CHR ''}'']"

definition table_UnmarshalJSON :: "string \<Rightarrow> error + UserError" where
  "table_UnmarshalJSON body =
     (if body = not_found_body then Inr \<lparr>ue_kind = ''not_found'', ue_message = []\<rparr>
      else Inl (LibError ''invalid error document''))"

definition text_Decode :: "error + string \<Rightarrow> iface \<Rightarrow> error + string" where
  "text_Decode body v = body"

definition ref_lib :: "string netlib" where
  "ref_lib =
     \<lparr>url_Parse = ref_Parse,
      ResolveReference = (\<lambda>base ref. ref),
      URL_String = ref_String,
      Values_Encode = form_Encode,
      UnmarshalJSON = table_UnmarshalJSON,
      json_Decode = text_Decode\<rparr>"

text \<open>Routes: one per method set of the claims, and one whose path carries a query.\<close>

definition route_of :: "string list \<Rightarrow> string \<Rightarrow> Route" where
  "route_of methods path = \<lparr>HTTPMethods = methods, URLPath = (\<lambda>vars. Inr path)\<rparr>"


text \<open>Servers for \<open>NewForTest\<close>: each answers every request with one fixed response.\<close>

definition answer :: "int \<Rightarrow> string \<Rightarrow> Request \<Rightarrow> Response" where
  "answer code body req = \<lparr>StatusCode = code, resp_Body = Inr body\<rparr>"

definition get_moods :: Request where
  "get_moods =
     \<lparr>req_Method = ''GET'',
      req_URL = \<lparr>Scheme = [], Host = [], Path = ''/moods'', RawQuery = [], Fragment = []\<rparr>,
      req_Header = Map.empty, req_Body = None\<rparr>"

definition struct_value :: iface where
  "struct_value = \<lparr>v_Kind = Kind_Struct, v_Type = ''auth.User''\<rparr>"

text \<open>
  For package auth the library parameters are the functions themselves: SHA-256 and
  HMAC as the standards define them (FIPS 180-4, RFC 2104), and base64 with the URL
  alphabet and padding (RFC 4648), decoded the way Go does: carriage returns and line
  feeds are skipped, padding is required, and the unused bits of the last quantum are
  not checked.
\<close>

type_synonym w32 = "32 word"

definition rotr :: "nat \<Rightarrow> w32 \<Rightarrow> w32" where
  "rotr n x = drop_bit n x OR push_bit (32 - n) x"

definition Ch :: "w32 \<Rightarrow> w32 \<Rightarrow> w32 \<Rightarrow> w32" where
  "Ch x y z = (x AND y) XOR (NOT x AND z)"

definition Maj :: "w32 \<Rightarrow> w32 \<Rightarrow> w32 \<Rightarrow> w32" where
  "Maj x y z = (x AND y) XOR (x AND z) XOR (y AND z)"

definition bsig0 :: "w32 \<Rightarrow> w32" where
  "bsig0 x = rotr 2 x XOR rotr 13 x XOR rotr 22 x"

definition bsig1 :: "w32 \<Rightarrow> w32" where
  "bsig1 x = rotr 6 x XOR rotr 11 x XOR rotr 25 x"

definition ssig0 :: "w32 \<Rightarrow> w32" where
  "ssig0 x = rotr 7 x XOR rotr 18 x XOR drop_bit 3 x"

definition ssig1 :: "w32 \<Rightarrow> w32" where
  "ssig1 x = rotr 17 x XOR rotr 19 x XOR drop_bit 10 x"

text \<open>
  The round constants: bits 32 to 1 after the binary point of the cube roots of the
  first 64 primes. The initial state: the same bits of the square roots of the first
  8 primes.
\<close>

definition K256 :: "w32 list" where
  "K256 = [
     1116352408, 1899447441, 3049323471, 3921009573, 961987163, 1508970993, 2453635748,
     2870763221, 3624381080, 310598401, 607225278, 1426881987, 1925078388, 2162078206,
     2614888103, 3248222580, 3835390401, 4022224774, 264347078, 604807628, 770255983,
     1249150122, 1555081692, 1996064986, 2554220882, 2821834349, 2952996808,
     3210313671, 3336571891, 3584528711, 113926993, 338241895, 666307205, 773529912,
     1294757372, 1396182291, 1695183700, 1986661051, 2177026350, 2456956037,
     2730485921, 2820302411, 3259730800, 3345764771, 3516065817, 3600352804,
     4094571909, 275423344, 430227734, 506948616, 659060556, 883997877, 958139571,
     1322822218, 1537002063, 1747873779, 1955562222, 2024104815, 2227730452,
     2361852424, 2428436474, 2756734187, 3204031479, 3329325298]"

type_synonym sha_state =
  "w32 \<times> w32 \<times> w32 \<times> w32 \<times> w32 \<times> w32 \<times> w32 \<times> w32"

definition H256 :: sha_state where
  "H256 = (1779033703, 3144134277, 1013904242, 2773480762, 1359893119, 2600822924, 528734635,
           1541459225)"

definition be32 :: "bytes \<Rightarrow> w32" where
  "be32 bs = foldl (\<lambda>acc b. push_bit 8 acc OR ucast b) 0 (take 4 bs)"

fun words_of :: "nat \<Rightarrow> bytes \<Rightarrow> w32 list" where
  "words_of 0 bs = []"
| "words_of (Suc n) bs = be32 bs # words_of n (drop 4 bs)"

text \<open>The message schedule, newest word first while it grows.\<close>

fun schedule :: "nat \<Rightarrow> w32 list \<Rightarrow> w32 list" where
  "schedule 0 ws = ws"
| "schedule (Suc n) ws =
     schedule n ((ssig1 (ws ! 1) + ws ! 6 + ssig0 (ws ! 14) + ws ! 15) # ws)"

definition round1 :: "w32 \<times> w32 \<Rightarrow> sha_state \<Rightarrow> sha_state" where
  "round1 kw st =
     (case st of (a, b, c, d, e, f, g, h) \<Rightarrow>
        (let t1 = h + bsig1 e + Ch e f g + fst kw + snd kw;
             t2 = bsig0 a + Maj a b c
         in (t1 + t2, a, b, c, d + t1, e, f, g)))"

definition add_state :: "sha_state \<Rightarrow> sha_state \<Rightarrow> sha_state" where
  "add_state s t =
     (case s of (a, b, c, d, e, f, g, h) \<Rightarrow>
      case t of (a', b', c', d', e', f', g', h') \<Rightarrow>
        (a + a', b + b', c + c', d + d', e + e', f + f', g + g', h + h'))"

definition compress :: "sha_state \<Rightarrow> bytes \<Rightarrow> sha_state" where
  "compress st block =
     add_state st
       (fold round1 (zip K256 (rev (schedule 48 (rev (words_of 16 block))))) st)"

fun blocks :: "nat \<Rightarrow> sha_state \<Rightarrow> bytes \<Rightarrow> sha_state" where
  "blocks 0 st bs = st"
| "blocks (Suc n) st bs = blocks n (compress st (take 64 bs)) (drop 64 bs)"

definition be64_bytes :: "64 word \<Rightarrow> bytes" where
  "be64_bytes w = map (\<lambda>i. ucast (drop_bit (8 * (7 - i)) w)) [0..<8]"

definition sha_pad :: "bytes \<Rightarrow> bytes" where
  "sha_pad m =
     m @ [0x80] @ replicate ((119 - length m mod 64) mod 64) 0
       @ be64_bytes (of_nat (8 * length m))"

definition w32_bytes :: "w32 \<Rightarrow> bytes" where
  "w32_bytes w = [ucast (drop_bit 24 w), ucast (drop_bit 16 w), ucast (drop_bit 8 w), ucast w]"

definition sha256 :: "bytes \<Rightarrow> bytes" where
  "sha256 m =
     (let p = sha_pad m in
      case blocks (length p div 64) H256 p of (a, b, c, d, e, f, g, h) \<Rightarrow>
        concat (map w32_bytes [a, b, c, d, e, f, g, h]))"

definition hmac_sha256 :: "bytes \<Rightarrow> bytes \<Rightarrow> bytes" where
  "hmac_sha256 k m =
     (let k0 = (if length k > 64 then sha256 k else k);
          k1 = k0 @ replicate (64 - length k0) 0
      in sha256 (map (\<lambda>b. b XOR 0x5c) k1 @ sha256 (map (\<lambda>b. b XOR 0x36) k1 @ m)))"

definition digest_word :: "bytes \<Rightarrow> 256 word" where
  "digest_word bs = foldl (\<lambda>acc b. push_bit 8 acc OR ucast b) 0 bs"

definition go_HMAC_SHA256 :: "bytes \<Rightarrow> bytes \<Rightarrow> 256 word" where
  "go_HMAC_SHA256 k m = digest_word (hmac_sha256 k m)"

definition encodeURL :: string where
  "encodeURL = ''ABCDEFGHIJKLMNOPQRSTUVWXYZabcdefghijklmnopqrstuvwxyz0123456789-_''"

definition enc6 :: "byte \<Rightarrow> char" where
  "enc6 x = encodeURL ! unat (x AND 63)"

fun b64_encode :: "bytes \<Rightarrow> string" where
  "b64_encode [] = []"
| "b64_encode [a] = [enc6 (drop_bit 2 a), enc6 (push_bit 4 a), CHR ''='', CHR ''='']"
| "b64_encode [a, b] =
     [enc6 (drop_bit 2 a), enc6 (push_bit 4 a OR drop_bit 4 b), enc6 (push_bit 2 b), CHR ''='']"
| "b64_encode (a # b # c # rest) =
     [enc6 (drop_bit 2 a), enc6 (push_bit 4 a OR drop_bit 4 b),
      enc6 (push_bit 2 b OR drop_bit 6 c), enc6 c] @ b64_encode rest"

definition dec6 :: "char \<Rightarrow> byte option" where
  "dec6 ch =
     (let n = (of_char ch :: nat) in
      if 65 \<le> n \<and> n \<le> 90 then Some (of_nat (n - 65))
      else if 97 \<le> n \<and> n \<le> 122 then Some (of_nat (n - 71))
      else if 48 \<le> n \<and> n \<le> 57 then Some (of_nat (n + 4))
      else if n = 45 then Some 62
      else if n = 95 then Some 63
      else None)"

definition quantum :: "byte \<Rightarrow> byte \<Rightarrow> byte \<Rightarrow> byte \<Rightarrow> bytes" where
  "quantum a b c d =
     [push_bit 2 a OR drop_bit 4 b, push_bit 4 b OR drop_bit 2 c, push_bit 6 c OR d]"

fun b64_quanta :: "string \<Rightarrow> bytes option" where
  "b64_quanta (c1 # c2 # c3 # c4 # rest) =
     (case (dec6 c1, dec6 c2) of
        (Some a, Some b) \<Rightarrow>
          (case (dec6 c3, dec6 c4) of
             (Some c, Some d) \<Rightarrow>
               (case b64_quanta rest of
                  None \<Rightarrow> None
                | Some bs \<Rightarrow> Some (quantum a b c d @ bs))
           | (Some c, None) \<Rightarrow>
               if c4 = CHR ''='' \<and> rest = [] then Some (take 2 (quantum a b c 0)) else None
           | (None, x) \<Rightarrow>
               if c3 = CHR ''='' \<and> c4 = CHR ''='' \<and> rest = [] then
                 Some (take 1 (quantum a b 0 0))
               else None)
      | (x, y) \<Rightarrow> None)"
| "b64_quanta [] = Some []"
| "b64_quanta rest = None"

definition b64_decode :: "string \<Rightarrow> error + bytes" where
  "b64_decode s =
     (case b64_quanta (filter (\<lambda>ch. ch \<noteq> CHR 0x0A \<and> ch \<noteq> CHR 0x0D) s) of
        None \<Rightarrow> Inl (LibError ''illegal base64 data'')
      | Some bs \<Rightarrow> Inr bs)"

definition go_crypto :: crypto where
  "go_crypto =
     \<lparr>HMAC_SHA256 = go_HMAC_SHA256,
      EncodeToString = b64_encode,
      DecodeString = b64_decode\<rparr>"

text \<open>
  \<open>[]byte(s)\<close> for a string, the secret of the examples, a token that is valid for it
  in the spec's sense (sixteen zero bytes and their HMAC-SHA256 under the secret), and
  requests that carry an Authorization header.
\<close>

definition bytes_of :: "string \<Rightarrow> bytes" where
  "bytes_of s = map (\<lambda>ch. of_nat (of_char ch)) s"

definition test_secret :: bytes where
  "test_secret = bytes_of ''secret''"

definition zero_id_token :: string where
  "zero_id_token = ''AAAAAAAAAAAAAAAAAAAAALWVUq8F8SSSp3s-AlfvjehCqcnRCZ-pVTSZKPSLrxrO''"

definition with_authorization :: "string \<Rightarrow> Request" where
  "with_authorization a = get_moods\<lparr>req_Header := [''Authorization'' \<mapsto> [a]]\<rparr>"

section \<open>Properties of package auth\<close>

lemma length_digest_bytes: "length (digest_bytes d) = 32"
  by (simp add: digest_bytes_def)

lemma length_hmac_Sum: "length (hmac_Sum L h b) = length b + 32"
  by (simp add: hmac_Sum_def length_digest_bytes)

lemma getUser_empty: "getUser L c auth = []"
proof (cases "DecodeString L auth")
  case (Inl err)
  then show ?thesis by (simp add: getUser_def)
next
  case (Inr raw)
  show ?thesis
  proof (cases "length raw = idLen + hmac_Size (hmac_New (secret c))")
    case False
    with Inr show ?thesis by (simp add: getUser_def)
  next
    case True
    then have len: "length raw = 48" by (simp add: idLen_def hmac_Size_def)
    let ?summed = "hmac_Sum L (hmac_New (secret c)) (take idLen raw)"
    have s: "length ?summed = 48"
      using len by (simp add: length_hmac_Sum idLen_def)
    have "length (drop idLen (?summed @ drop (length ?summed) raw)) = 32"
      using len s by (simp add: idLen_def)
    then have "\<not> hmac_Equal (drop idLen (?summed @ drop (length ?summed) raw)) ?summed"
      using s by (simp add: hmac_Equal_def)
    with Inr True show ?thesis by (simp add: getUser_def Let_def)
  qed
qed

lemma GetUser_not_found: "GetUser L c (Some auth) = Inr [http_NotFound]"
  by (simp add: GetUser_def getUser_empty)

lemma CreateUser_eq:
  "CreateUser L json_Encode c src =
     (case json_Encode (EncodeToString L (digest_bytes (HMAC_SHA256 L (secret c) []))) of
        Some err \<Rightarrow> Inl err
      | None \<Rightarrow> Inr (EncodeToString L (digest_bytes (HMAC_SHA256 L (secret c) [])), src))"
  by (simp add: CreateUser_def make_bytes_def rand_Read_def hmac_Sum_def hmac_New_def Let_def
      split: option.splits)

lemma valid_zero_id_token: "spec_token_valid go_crypto test_secret zero_id_token"
  by code_simp

lemma CreateUser_test_secret:
  "CreateUser go_crypto (\<lambda>res. None) (New test_secret) [1, 2, 3]
     = Inr (''-eZuF5tnR65UEI-C-K3os8Jddv0wr95sOVgixTAZYWk='', [1, 2, 3])"
  by code_simp

text \<open>
  C1. The claim fails on the code. When the response is written without error,
  \<open>CreateUser\<close> issues the encoding of the MAC of the empty message alone, and
  \<open>getUser\<close> answers that token with the empty string, which is its answer for an
  invalid token.
\<close>

theorem issued_token_rejected:
  "CreateUser L (\<lambda>res. None) c src =
     Inr (EncodeToString L (digest_bytes (HMAC_SHA256 L (secret c) [])), src)
   \<and> getUser L c (EncodeToString L (digest_bytes (HMAC_SHA256 L (secret c) []))) = []"
  by (simp add: CreateUser_eq getUser_empty)

text \<open>
  C2. The claim fails on the code. The identity has length 0, so \<open>CreateUser\<close> reads
  nothing from the random source and leaves it as it was; the token is the encoding of
  32 bytes, the MAC of the empty message under the secret, the same for every call.
\<close>

theorem CreateUser_token_fixed:
  "CreateUser L json_Encode c src =
     (case json_Encode (EncodeToString L (digest_bytes (HMAC_SHA256 L (secret c) []))) of
        Some err \<Rightarrow> Inl err
      | None \<Rightarrow> Inr (EncodeToString L (digest_bytes (HMAC_SHA256 L (secret c) [])), src))
   \<and> length (make_bytes 0 idLen) = 0
   \<and> length (digest_bytes (HMAC_SHA256 L (secret c) [])) = 32"
  by (simp add: CreateUser_eq make_bytes_def length_digest_bytes)

text \<open>
  C3. The claim fails on the code. A token that is valid in the spec's sense (it decodes
  to 48 bytes whose last 32 are the HMAC-SHA256 of the first 16 under the secret) is
  answered with the empty string: \<open>mac.Sum(id)\<close> is 48 bytes long and \<open>msgMac\<close> is 32.
\<close>

theorem getUser_rejects_valid_token:
  assumes "spec_token_valid L (secret c) t"
  shows "getUser L c t = []"
  by (rule getUser_empty)

theorem getUser_rejects_valid_token_witness:
  "spec_token_valid go_crypto (secret (New test_secret)) zero_id_token
   \<and> getUser go_crypto (New test_secret) zero_id_token = []"
proof -
  have v: "spec_token_valid go_crypto (secret (New test_secret)) zero_id_token"
    using valid_zero_id_token by (simp add: New_def)
  from v getUser_rejects_valid_token [OF v] show ?thesis by simp
qed

text \<open>
  C4. The claim fails on the code. A request whose Authorization header is
  \<open>Bearer\<close> followed by a token that is valid in the spec's sense is answered with 401
  and "Invalid authentication string"; the wrapped handler is not called.
\<close>

theorem WrapC_rejects_valid_token:
  assumes "Header_Get (req_Header r) ''Authorization'' = ''Bearer '' @ t"
    and "spec_token_valid L (secret c) t"
  shows "WrapC L c ctx r = [http_Error ''Invalid authentication string'' 401]"
  using assms(1)
  by (simp add: WrapC_def HasPrefix_def TrimPrefix_def getUser_empty StatusUnauthorized_def)

theorem WrapC_rejects_valid_token_witness:
  "Header_Get (req_Header (with_authorization (''Bearer '' @ zero_id_token))) ''Authorization''
     = ''Bearer '' @ zero_id_token
   \<and> spec_token_valid go_crypto (secret (New test_secret)) zero_id_token
   \<and> WrapC go_crypto (New test_secret) Map.empty
         (with_authorization (''Bearer '' @ zero_id_token))
       = [http_Error ''Invalid authentication string'' 401]"
proof -
  have h: "Header_Get (req_Header (with_authorization (''Bearer '' @ zero_id_token)))
      ''Authorization'' = ''Bearer '' @ zero_id_token"
    by (simp add: with_authorization_def Header_Get_def)
  have v: "spec_token_valid go_crypto (secret (New test_secret)) zero_id_token"
    using valid_zero_id_token by (simp add: New_def)
  from h v WrapC_rejects_valid_token [OF h v] show ?thesis by blast
qed

text \<open>
  C5. When the Authorization header is missing, or does not start with \<open>Bearer\<close> and
  a space in exactly this spelling, or carries a token for which \<open>getUser\<close> returns the
  empty string, \<open>WrapC\<close> calls \<open>http.Error\<close> with status 401 and one of its two
  messages, and does not call the wrapped handler.
\<close>

theorem WrapC_unauthorized:
  assumes "req_Header r ''Authorization'' = None
     \<or> \<not> HasPrefix (Header_Get (req_Header r) ''Authorization'') ''Bearer ''
     \<or> getUser L c (TrimPrefix (Header_Get (req_Header r) ''Authorization'') ''Bearer '') = []"
  shows "WrapC L c ctx r =
      [http_Error
         (if HasPrefix (Header_Get (req_Header r) ''Authorization'') ''Bearer ''
          then ''Invalid authentication string''
          else ''You must provide a Bearer token in an Authorization header'') 401]
     \<and> (\<forall>ctx'. ServeHTTPC ctx' \<notin> set (WrapC L c ctx r))"
proof -
  have "req_Header r ''Authorization'' = None \<Longrightarrow>
      \<not> HasPrefix (Header_Get (req_Header r) ''Authorization'') ''Bearer ''"
    by (simp add: Header_Get_def HasPrefix_def)
  with assms show ?thesis
    by (auto simp: WrapC_def StatusUnauthorized_def)
qed

theorem WrapC_unauthorized_witness:
  "(req_Header get_moods ''Authorization'' = None
    \<and> WrapC go_crypto (New test_secret) Map.empty get_moods
        = [http_Error ''You must provide a Bearer token in an Authorization header'' 401])
   \<and> (\<not> HasPrefix (Header_Get (req_Header (with_authorization ''bearer abcd'')) ''Authorization'')
          ''Bearer ''
    \<and> WrapC go_crypto (New test_secret) Map.empty (with_authorization ''bearer abcd'')
        = [http_Error ''You must provide a Bearer token in an Authorization header'' 401])
   \<and> (getUser go_crypto (New test_secret)
         (TrimPrefix (Header_Get (req_Header (with_authorization ''Bearer abcd'')) ''Authorization'')
            ''Bearer '') = []
    \<and> WrapC go_crypto (New test_secret) Map.empty (with_authorization ''Bearer abcd'')
        = [http_Error ''Invalid authentication string'' 401])"
proof -
  have a: "req_Header get_moods ''Authorization'' = None"
    by (simp add: get_moods_def)
  have b: "\<not> HasPrefix (Header_Get (req_Header (with_authorization ''bearer abcd''))
      ''Authorization'') ''Bearer ''"
    by (simp add: with_authorization_def Header_Get_def HasPrefix_def)
  have t: "TrimPrefix (Header_Get (req_Header (with_authorization ''Bearer abcd''))
      ''Authorization'') ''Bearer '' = ''abcd''"
    by (simp add: with_authorization_def Header_Get_def HasPrefix_def TrimPrefix_def)
  have d: "DecodeString go_crypto ''abcd'' = Inr [105, 183, 29]"
    by (simp add: go_crypto_def b64_decode_def dec6_def quantum_def)
  have c: "getUser go_crypto (New test_secret)
      (TrimPrefix (Header_Get (req_Header (with_authorization ''Bearer abcd'')) ''Authorization'')
         ''Bearer '') = []"
    unfolding t by (simp add: getUser_def d idLen_def hmac_Size_def)
  have p: "HasPrefix (Header_Get (req_Header (with_authorization ''Bearer abcd''))
      ''Authorization'') ''Bearer ''"
    by (simp add: with_authorization_def Header_Get_def HasPrefix_def)
  have "WrapC go_crypto (New test_secret) Map.empty get_moods
      = [http_Error ''You must provide a Bearer token in an Authorization header'' 401]"
    using WrapC_unauthorized [OF disjI1, OF a] a
    by (simp add: Header_Get_def HasPrefix_def)
  moreover have "WrapC go_crypto (New test_secret) Map.empty (with_authorization ''bearer abcd'')
      = [http_Error ''You must provide a Bearer token in an Authorization header'' 401]"
    using WrapC_unauthorized [OF disjI2, OF disjI1, OF b] b by simp
  moreover have "WrapC go_crypto (New test_secret) Map.empty (with_authorization ''Bearer abcd'')
      = [http_Error ''Invalid authentication string'' 401]"
    using WrapC_unauthorized [OF disjI2, OF disjI2, OF c] p by simp
  ultimately show ?thesis using a b c by blast
qed

section \<open>Properties of package client\<close>

lemma Do_proceeds:
  assumes "v = None \<or> reflect_Kind v = Kind_Ptr" and "c_do c req = Inr resp"
    and "StatusCode resp > 399"
  shows "Do L c req v =
     (case resp_Body resp of
        Inl err \<Rightarrow>
          \<lparr>ret_resp = Some resp, ret_err = Some (Annotate err ''unable to read response body''),
           stored = None, sent = [req]\<rparr>
      | Inr body \<Rightarrow>
          (case UnmarshalJSON L body of
             Inl err \<Rightarrow>
               \<lparr>ret_resp = Some resp,
                ret_err = Some (Annotate err ''unable to parse error body''),
                stored = None, sent = [req]\<rparr>
           | Inr uerr \<Rightarrow>
               \<lparr>ret_resp = Some resp, ret_err = Some (UserErr uerr), stored = None,
                sent = [req]\<rparr>))"
  using assms by (simp add: Do_def)

text \<open>
  C10. When the destination \<open>v\<close> is neither nil nor a pointer, \<open>Do\<close> returns no response
  and the error "value must be a pointer or nil not T", and hands no request to the
  transport.
\<close>

theorem Do_value_not_pointer:
  assumes "v = Some x" and "v_Kind x \<noteq> Kind_Ptr"
  shows "Do L c req v =
     \<lparr>ret_resp = None, ret_err = Some (ValueNotPointer (v_Type x)), stored = None,
      sent = []\<rparr>"
  using assms by (simp add: Do_def reflect_Kind_def reflect_TypeString_def)

theorem Do_value_not_pointer_witness:
  "v_Kind struct_value \<noteq> Kind_Ptr \<and>
   Do ref_lib (NewForTest (answer 200 ''{}'')) get_moods (Some struct_value) =
     \<lparr>ret_resp = None, ret_err = Some (ValueNotPointer ''auth.User''), stored = None,
      sent = []\<rparr>"
proof -
  have k: "v_Kind struct_value \<noteq> Kind_Ptr" by (simp add: struct_value_def)
  have "Do ref_lib (NewForTest (answer 200 ''{}'')) get_moods (Some struct_value) =
     \<lparr>ret_resp = None, ret_err = Some (ValueNotPointer (v_Type struct_value)),
      stored = None, sent = []\<rparr>"
    by (rule Do_value_not_pointer [OF refl k])
  with k show ?thesis by (simp add: struct_value_def)
qed


text \<open>
  C6 (as amended). A response with status 418 is above 399, so it is handled as every
  status from 400 on: the error is the decoded application error, or "unable to parse
  error body" when the body does not decode, or "unable to read response body" when the
  body cannot be read. It is never "unexpected status code 418".
\<close>

theorem Do_status_418:
  assumes "v = None \<or> reflect_Kind v = Kind_Ptr" and "c_do c req = Inr resp"
    and "StatusCode resp = 418"
  shows "ret_err (Do L c req v) =
     Some (case resp_Body resp of
             Inl err \<Rightarrow> Annotate err ''unable to read response body''
           | Inr body \<Rightarrow>
               (case UnmarshalJSON L body of
                  Inl err \<Rightarrow> Annotate err ''unable to parse error body''
                | Inr uerr \<Rightarrow> UserErr uerr))
     \<and> ret_err (Do L c req v) \<noteq> Some (UnexpectedStatus 418)"
proof -
  have "StatusCode resp > 399" using assms(3) by simp
  then have eq: "Do L c req v =
     (case resp_Body resp of
        Inl err \<Rightarrow>
          \<lparr>ret_resp = Some resp, ret_err = Some (Annotate err ''unable to read response body''),
           stored = None, sent = [req]\<rparr>
      | Inr body \<Rightarrow>
          (case UnmarshalJSON L body of
             Inl err \<Rightarrow>
               \<lparr>ret_resp = Some resp,
                ret_err = Some (Annotate err ''unable to parse error body''),
                stored = None, sent = [req]\<rparr>
           | Inr uerr \<Rightarrow>
               \<lparr>ret_resp = Some resp, ret_err = Some (UserErr uerr), stored = None,
                sent = [req]\<rparr>))"
    by (rule Do_proceeds [OF assms(1) assms(2)])
  show ?thesis unfolding eq by (simp split: sum.splits)
qed

theorem Do_status_418_witness:
  "ret_err (Do ref_lib (NewForTest (answer 418 not_found_body)) get_moods None) =
     Some (UserErr \<lparr>ue_kind = ''not_found'', ue_message = []\<rparr>)
   \<and> ret_err (Do ref_lib (NewForTest (answer 418 not_found_body)) get_moods None)
       \<noteq> Some (UnexpectedStatus 418)"
proof -
  have d: "c_do (NewForTest (answer 418 not_found_body)) get_moods
      = Inr (answer 418 not_found_body get_moods)"
    by (simp add: NewForTest_def)
  have s: "StatusCode (answer 418 not_found_body get_moods) = 418"
    by (simp add: answer_def)
  have n: "(None :: iface option) = None \<or> reflect_Kind None = Kind_Ptr" by simp
  from Do_status_418 [OF n d s, where L = ref_lib]
  show ?thesis
    by (simp add: answer_def ref_lib_def table_UnmarshalJSON_def)
qed

text \<open>
  C6 as stated fails: the response 418 with an empty body gives "unable to parse error
  body", not "unexpected status code 418".
\<close>

theorem Do_status_418_counterexample:
  "ret_err (Do ref_lib (NewForTest (answer 418 [])) get_moods None) =
     Some (Annotate (LibError ''invalid error document'') ''unable to parse error body'')
   \<and> ret_err (Do ref_lib (NewForTest (answer 418 [])) get_moods None)
       \<noteq> Some (UnexpectedStatus 418)"
  by (simp add: Do_def NewForTest_def answer_def ref_lib_def table_UnmarshalJSON_def
      not_found_body_def)

text \<open>
  C7. For a response with status 400 or more whose body has been read in full, \<open>Do\<close>
  hands the body to \<open>usererrors.UnmarshalJSON\<close>. When that succeeds, the error returned
  is the decoded application error itself, so a body that decodes to kind
  \<open>not_found\<close> under status 404 gives an error of kind \<open>not_found\<close>; when it fails,
  the error returned is "unable to parse error body" around the decoder's error, which
  is not an application error. The response is returned beside the error.
\<close>

theorem Do_error_status:
  assumes "v = None \<or> reflect_Kind v = Kind_Ptr" and "c_do c req = Inr resp"
    and "StatusCode resp \<ge> 400" and "resp_Body resp = Inr body"
  shows "(\<forall>uerr. UnmarshalJSON L body = Inr uerr \<longrightarrow>
            Do L c req v =
              \<lparr>ret_resp = Some resp, ret_err = Some (UserErr uerr), stored = None,
               sent = [req]\<rparr>)
     \<and> (\<forall>err. UnmarshalJSON L body = Inl err \<longrightarrow>
            Do L c req v =
              \<lparr>ret_resp = Some resp,
               ret_err = Some (Annotate err ''unable to parse error body''),
               stored = None, sent = [req]\<rparr>)
     \<and> (\<forall>uerr. StatusCode resp = 404 \<and> UnmarshalJSON L body = Inr uerr
            \<and> ue_kind uerr = ''not_found'' \<longrightarrow>
            (\<exists>e. ret_err (Do L c req v) = Some (UserErr e) \<and> ue_kind e = ''not_found''))"
proof -
  have "StatusCode resp > 399" using assms(3) by simp
  then have "Do L c req v =
     (case UnmarshalJSON L body of
        Inl err \<Rightarrow>
          \<lparr>ret_resp = Some resp, ret_err = Some (Annotate err ''unable to parse error body''),
           stored = None, sent = [req]\<rparr>
      | Inr uerr \<Rightarrow>
          \<lparr>ret_resp = Some resp, ret_err = Some (UserErr uerr), stored = None,
           sent = [req]\<rparr>)"
    using Do_proceeds [OF assms(1) assms(2), of L] assms(4) by simp
  then show ?thesis by auto
qed

theorem Do_error_status_witness:
  "Do ref_lib (NewForTest (answer 404 not_found_body)) get_moods None =
     \<lparr>ret_resp = Some \<lparr>StatusCode = 404, resp_Body = Inr not_found_body\<rparr>,
      ret_err = Some (UserErr \<lparr>ue_kind = ''not_found'', ue_message = []\<rparr>),
      stored = None, sent = [get_moods]\<rparr>
   \<and> Do ref_lib (NewForTest (answer 500 ''oops'')) get_moods None =
     \<lparr>ret_resp = Some \<lparr>StatusCode = 500, resp_Body = Inr ''oops''\<rparr>,
      ret_err = Some (Annotate (LibError ''invalid error document'')
                        ''unable to parse error body''),
      stored = None, sent = [get_moods]\<rparr>"
proof -
  have n: "(None :: iface option) = None \<or> reflect_Kind None = Kind_Ptr" by simp
  have d1: "c_do (NewForTest (answer 404 not_found_body)) get_moods
      = Inr \<lparr>StatusCode = 404, resp_Body = Inr not_found_body\<rparr>"
    by (simp add: NewForTest_def answer_def)
  have d2: "c_do (NewForTest (answer 500 ''oops'')) get_moods
      = Inr \<lparr>StatusCode = 500, resp_Body = Inr ''oops''\<rparr>"
    by (simp add: NewForTest_def answer_def)
  have u1: "UnmarshalJSON ref_lib not_found_body
      = Inr \<lparr>ue_kind = ''not_found'', ue_message = []\<rparr>"
    by (simp add: ref_lib_def table_UnmarshalJSON_def)
  have u2: "UnmarshalJSON ref_lib ''oops'' = Inl (LibError ''invalid error document'')"
    by (simp add: ref_lib_def table_UnmarshalJSON_def not_found_body_def)
  have a: "Do ref_lib (NewForTest (answer 404 not_found_body)) get_moods None =
     \<lparr>ret_resp = Some \<lparr>StatusCode = 404, resp_Body = Inr not_found_body\<rparr>,
      ret_err = Some (UserErr \<lparr>ue_kind = ''not_found'', ue_message = []\<rparr>),
      stored = None, sent = [get_moods]\<rparr>"
    using Do_error_status [OF n d1, where body = not_found_body and L = ref_lib] u1 by simp
  have b: "Do ref_lib (NewForTest (answer 500 ''oops'')) get_moods None =
     \<lparr>ret_resp = Some \<lparr>StatusCode = 500, resp_Body = Inr ''oops''\<rparr>,
      ret_err = Some (Annotate (LibError ''invalid error document'')
                        ''unable to parse error body''),
      stored = None, sent = [get_moods]\<rparr>"
    using Do_error_status [OF n d2, where body = "''oops''" and L = ref_lib] u2 by simp
  from a b show ?thesis by simp
qed


subsection \<open>Building requests\<close>

lemma distinct_set_single:
  assumes "distinct ms" and "set ms = {a}"
  shows "ms = [a]"
proof -
  have "length ms = 1" using assms distinct_card [of ms] by simp
  then obtain x where "ms = [x]" by (cases ms) auto
  with assms show ?thesis by auto
qed

lemma distinct_set_pair:
  assumes "distinct ms" and "set ms = {a, b}" and "a \<noteq> b"
  shows "ms = [a, b] \<or> ms = [b, a]"
proof -
  have "length ms = 2" using assms distinct_card [of ms] by simp
  then obtain x y where "ms = [x, y]"
    by (cases ms; cases "tl ms") auto
  with assms show ?thesis by (auto simp: doubleton_eq_iff)
qed

lemma validMethod_GET: "validMethod ''GET''"
  by (simp add: validMethod_def isTokenChar_def)

lemma NewRequest_method_error:
  assumes "URLPath rt (case rtVars of Some v \<Rightarrow> v | None \<Rightarrow> Map.empty) = Inr path"
    and "url_Parse L path = Inr rel"
    and "resolveMethod (HTTPMethods rt) = Inl err"
  shows "NewRequest L c rt rtVars form = Inl err"
  using assms by (simp add: NewRequest_def)

lemma NewRequest_Method:
  assumes "URLPath rt (case rtVars of Some v \<Rightarrow> v | None \<Rightarrow> Map.empty) = Inr path"
    and "url_Parse L path = Inr rel"
    and "resolveMethod (HTTPMethods rt) = Inr method"
    and "method \<noteq> []"
    and "NewRequest L c rt rtVars form = Inr req"
  shows "req_Method req = method"
  using assms
  by (auto simp: NewRequest_def http_NewRequest_def Let_def
      split: sum.splits if_splits option.splits prod.splits)

text \<open>
  C8 (as amended). Once the path of the route has been generated and parsed,
  \<open>NewRequest\<close> resolves the method of the route, in whatever order the methods are
  visited: for the methods GET, and for GET with HEAD, the method is GET and so is the
  method of every request built; for GET with POST, and for no method at all,
  \<open>NewRequest\<close> returns an error, each time a request is built for the route.
\<close>

theorem NewRequest_method_resolution:
  assumes "URLPath rt (case rtVars of Some v \<Rightarrow> v | None \<Rightarrow> Map.empty) = Inr path"
    and "url_Parse L path = Inr rel"
    and "distinct (HTTPMethods rt)"
  shows "(set (HTTPMethods rt) = {''GET''} \<or> set (HTTPMethods rt) = {''GET'', ''HEAD''} \<longrightarrow>
            resolveMethod (HTTPMethods rt) = Inr ''GET''
            \<and> (\<forall>req. NewRequest L c rt rtVars form = Inr req \<longrightarrow> req_Method req = ''GET''))
     \<and> (set (HTTPMethods rt) = {''GET'', ''POST''} \<longrightarrow>
            NewRequest L c rt rtVars form = Inl (MultipleMethods (HTTPMethods rt)))
     \<and> (set (HTTPMethods rt) = {} \<longrightarrow> NewRequest L c rt rtVars form = Inl NoHTTPMethods)"
proof (intro conjI impI)
  assume "set (HTTPMethods rt) = {''GET''} \<or> set (HTTPMethods rt) = {''GET'', ''HEAD''}"
  then have "HTTPMethods rt = [''GET''] \<or> HTTPMethods rt = [''GET'', ''HEAD'']
      \<or> HTTPMethods rt = [''HEAD'', ''GET'']"
    using distinct_set_single [OF assms(3)] distinct_set_pair [OF assms(3)] by fastforce
  then show r: "resolveMethod (HTTPMethods rt) = Inr ''GET''"
    by (auto simp: resolveMethod_def)
  show "\<forall>req. NewRequest L c rt rtVars form = Inr req \<longrightarrow> req_Method req = ''GET''"
    using NewRequest_Method [OF assms(1) assms(2) r] by simp
next
  assume "set (HTTPMethods rt) = {''GET'', ''POST''}"
  then have "HTTPMethods rt = [''GET'', ''POST''] \<or> HTTPMethods rt = [''POST'', ''GET'']"
    using distinct_set_pair [OF assms(3)] by fastforce
  then have "resolveMethod (HTTPMethods rt) = Inl (MultipleMethods (HTTPMethods rt))"
    by (auto simp: resolveMethod_def)
  then show "NewRequest L c rt rtVars form = Inl (MultipleMethods (HTTPMethods rt))"
    by (rule NewRequest_method_error [OF assms(1) assms(2)])
next
  assume "set (HTTPMethods rt) = {}"
  then have "resolveMethod (HTTPMethods rt) = Inl NoHTTPMethods"
    by (simp add: resolveMethod_def)
  then show "NewRequest L c rt rtVars form = Inl NoHTTPMethods"
    by (rule NewRequest_method_error [OF assms(1) assms(2)])
qed


theorem NewRequest_method_resolution_witness:
  "resolveMethod [''HEAD'', ''GET''] = Inr ''GET''
   \<and> NewRequest ref_lib (NewForTest (answer 200 [])) (route_of [''HEAD'', ''GET''] ''/moods'')
         None None = Inr get_moods
   \<and> NewRequest ref_lib (NewForTest (answer 200 [])) (route_of [''POST'', ''GET''] ''/moods'')
         None None = Inl (MultipleMethods [''POST'', ''GET''])
   \<and> NewRequest ref_lib (NewForTest (answer 200 [])) (route_of [] ''/moods'') None None
       = Inl NoHTTPMethods"
proof -
  let ?c = "NewForTest (answer 200 [])"
  have p: "\<And>ms. URLPath (route_of ms ''/moods'')
      (case None of Some v \<Rightarrow> v | None \<Rightarrow> Map.empty) = Inr ''/moods''"
    by (simp add: route_of_def)
  have u: "url_Parse ref_lib ''/moods''
      = Inr \<lparr>Scheme = [], Host = [], Path = ''/moods'', RawQuery = [], Fragment = []\<rparr>"
    by (simp add: ref_lib_def ref_Parse_def)
  have a: "resolveMethod [''HEAD'', ''GET''] = Inr ''GET''"
    using NewRequest_method_resolution [OF p u, where ms1 = "[''HEAD'', ''GET'']"]
    by (simp add: route_of_def insert_commute)
  have b: "NewRequest ref_lib ?c (route_of [''POST'', ''GET''] ''/moods'') None None
      = Inl (MultipleMethods [''POST'', ''GET''])"
    using NewRequest_method_resolution [OF p u, where ms1 = "[''POST'', ''GET'']"]
    by (simp add: route_of_def insert_commute)
  have c: "NewRequest ref_lib ?c (route_of [] ''/moods'') None None = Inl NoHTTPMethods"
    using NewRequest_method_resolution [OF p u, where ms1 = "[]"]
    by (simp add: route_of_def)
  have d: "NewRequest ref_lib ?c (route_of [''HEAD'', ''GET''] ''/moods'') None None
      = Inr get_moods"
    by (simp add: NewRequest_def route_of_def ref_lib_def ref_Parse_def ref_String_def
        resolveMethod_def http_NewRequest_def validMethod_GET NewForTest_def get_moods_def)
  from a b c d show ?thesis by simp
qed

text \<open>
  C8 as stated fails: a route with the methods GET and POST is a value like any other,
  and the error about its methods is what \<open>NewRequest\<close> returns when a request is built
  for it.
\<close>

theorem NewRequest_method_resolution_counterexample:
  "HTTPMethods (route_of [''GET'', ''POST''] ''/moods'') = [''GET'', ''POST'']
   \<and> NewRequest ref_lib (NewForTest (answer 200 [])) (route_of [''GET'', ''POST''] ''/moods'')
         None None = Inl (MultipleMethods [''GET'', ''POST''])"
  by (simp add: NewRequest_def route_of_def ref_lib_def ref_Parse_def resolveMethod_def)









end
